theory Spec2Isabelle
  imports Complex_Main "HOL-Library.Sublist"
begin

section \<open>JavaScript values and exceptions\<close>

text \<open>
  The handler and the form are TypeScript; their type annotations are erased before the
  code runs, and what arrives from \<^verbatim>\<open>request.json()\<close>, from the completion API and from
  the delivery client is whatever was sent. Such a value is a \<open>jsval\<close>. A number is
  carried as its decimal rendering (what \<^verbatim>\<open>String(x)\<close> prints): the code never computes
  with one, it only tests it for truth and prints it. A string is a list of bytes, a
  character outside ASCII being its UTF-8 bytes. An object is the list of its properties,
  each name once.
\<close>

datatype jsval =
    JUndefined
  | JNull
  | JBool bool
  | JNum string
  | JStr string
  | JArr "jsval list"
  | JObj "(string \<times> jsval) list"

text \<open>The characters that an Isabelle string literal cannot hold, by their bytes.\<close>

abbreviation nl :: string where "nl \<equiv> [CHR 0x0A]"
abbreviation dq :: string where "dq \<equiv> [CHR 0x22]"
abbreviation sq :: string where "sq \<equiv> [CHR 0x27]"
abbreviation glowing_star :: string where "glowing_star \<equiv> [CHR 0xF0, CHR 0x9F, CHR 0x8C, CHR 0x9F]"
abbreviation rocket :: string where "rocket \<equiv> [CHR 0xF0, CHR 0x9F, CHR 0x9A, CHR 0x80]"
abbreviation direct_hit :: string where "direct_hit \<equiv> [CHR 0xF0, CHR 0x9F, CHR 0x8E, CHR 0xAF]"
abbreviation light_bulb :: string where "light_bulb \<equiv> [CHR 0xF0, CHR 0x9F, CHR 0x92, CHR 0xA1]"
abbreviation microscope :: string where "microscope \<equiv> [CHR 0xF0, CHR 0x9F, CHR 0x94, CHR 0xAC]"
abbreviation globe :: string where "globe \<equiv> [CHR 0xF0, CHR 0x9F, CHR 0x8C, CHR 0x90]"
abbreviation high_voltage :: string where "high_voltage \<equiv> [CHR 0xE2, CHR 0x9A, CHR 0xA1]"

text \<open>
  A thrown value is an \<^verbatim>\<open>Error\<close> object; the handler reads only its
  \<^verbatim>\<open>message\<close>. The messages of the engine's own \<^verbatim>\<open>TypeError\<close>s are V8's.
\<close>

datatype js_error =
    TypeError string
  | SyntaxError string
  | Error string

fun err_message :: "js_error \<Rightarrow> string" where
  "err_message (TypeError m) = m"
| "err_message (SyntaxError m) = m"
| "err_message (Error m) = m"

text \<open>
  What throws and what returns: a computation gives \<open>Inl\<close> the exception or \<open>Inr\<close> the
  value, and \<open>and_then\<close> runs the next statement on the value, an exception passing
  through.
\<close>

fun and_then :: "js_error + 'a \<Rightarrow> ('a \<Rightarrow> js_error + 'b) \<Rightarrow> js_error + 'b" where
  "and_then (Inl e) f = Inl e"
| "and_then (Inr v) f = f v"

text \<open>\<^verbatim>\<open>v || w\<close> evaluates \<open>w\<close> only when \<open>v\<close> is falsy.\<close>

fun truthy :: "jsval \<Rightarrow> bool" where
  "truthy JUndefined = False"
| "truthy JNull = False"
| "truthy (JBool b) = b"
| "truthy (JNum s) = (s \<noteq> ''0'')"
| "truthy (JStr s) = (s \<noteq> [])"
| "truthy (JArr xs) = True"
| "truthy (JObj kvs) = True"

fun nullish :: "jsval \<Rightarrow> bool" where
  "nullish JUndefined = True"
| "nullish JNull = True"
| "nullish v = False"

text \<open>
  \<^verbatim>\<open>v.k\<close> for the property names the code reads (\<^verbatim>\<open>name\<close>, \<^verbatim>\<open>email\<close>,
  \<^verbatim>\<open>industry\<close>, \<^verbatim>\<open>choices\<close>, \<^verbatim>\<open>message\<close>, \<^verbatim>\<open>content\<close>, \<^verbatim>\<open>data\<close>,
  \<^verbatim>\<open>id\<close>), none of which a string, a number, a boolean or an array has of its own:
  reading one from \<^verbatim>\<open>null\<close> or \<^verbatim>\<open>undefined\<close> throws, from an object it gives
  the property or \<^verbatim>\<open>undefined\<close>, from anything else \<^verbatim>\<open>undefined\<close>.
\<close>

fun get_prop :: "jsval \<Rightarrow> string \<Rightarrow> js_error + jsval" where
  "get_prop JUndefined k =
     Inl (TypeError (''Cannot read properties of undefined (reading '' @ sq @ k @ sq @ '')''))"
| "get_prop JNull k =
     Inl (TypeError (''Cannot read properties of null (reading '' @ sq @ k @ sq @ '')''))"
| "get_prop (JObj kvs) k = Inr (case map_of kvs k of None \<Rightarrow> JUndefined | Some v \<Rightarrow> v)"
| "get_prop v k = Inr JUndefined"

text \<open>
  \<^verbatim>\<open>v[0]\<close>: the first element of an array, the property \<^verbatim>\<open>0\<close> of an object, the
  first character of a string. Of that character the code reads only \<^verbatim>\<open>message\<close>,
  which no string has, so the model keeps its first byte.
\<close>

fun get_index0 :: "jsval \<Rightarrow> js_error + jsval" where
  "get_index0 JUndefined =
     Inl (TypeError (''Cannot read properties of undefined (reading '' @ sq @ ''0'' @ sq @ '')''))"
| "get_index0 JNull =
     Inl (TypeError (''Cannot read properties of null (reading '' @ sq @ ''0'' @ sq @ '')''))"
| "get_index0 (JArr xs) = Inr (case xs of [] \<Rightarrow> JUndefined | x # _ \<Rightarrow> x)"
| "get_index0 (JStr s) = Inr (case s of [] \<Rightarrow> JUndefined | c # _ \<Rightarrow> JStr [c])"
| "get_index0 (JObj kvs) = Inr (case map_of kvs ''0'' of None \<Rightarrow> JUndefined | Some v \<Rightarrow> v)"
| "get_index0 v = Inr JUndefined"

text \<open>
  \<^verbatim>\<open>String(v)\<close>, which a template literal applies to each \<^verbatim>\<open>${v}\<close>. An object is
  printed by its \<^verbatim>\<open>toString\<close>: the inherited one prints \<^verbatim>\<open>[object Object]\<close>, but a
  property of the object's own by that name hides it, and such a property of a parsed
  value is never a function, so the conversion throws. An array prints its elements with
  commas between them, \<^verbatim>\<open>null\<close> and \<^verbatim>\<open>undefined\<close> as nothing, from left to right,
  and throws where an element does.
\<close>

fun toStr :: "jsval \<Rightarrow> js_error + string"
  and join_elements :: "jsval list \<Rightarrow> js_error + string" where
  "toStr JUndefined = Inr ''undefined''"
| "toStr JNull = Inr ''null''"
| "toStr (JBool b) = Inr (if b then ''true'' else ''false'')"
| "toStr (JNum s) = Inr s"
| "toStr (JStr s) = Inr s"
| "toStr (JArr xs) = join_elements xs"
| "toStr (JObj kvs) =
     (case map_of kvs ''toString'' of
        None \<Rightarrow> Inr ''[object Object]''
      | Some v \<Rightarrow> Inl (TypeError ''Cannot convert object to primitive value''))"
| "join_elements [] = Inr []"
| "join_elements [x] = (if nullish x then Inr [] else toStr x)"
| "join_elements (x # y # ys) =
     and_then (if nullish x then Inr [] else toStr x) (\<lambda>s.
     and_then (join_elements (y # ys)) (\<lambda>rest. Inr (s @ '','' @ rest)))"

fun decimal :: "nat \<Rightarrow> string" where
  "decimal n =
     (if n < 10 then [char_of (48 + n)] else decimal (n div 10) @ [char_of (48 + n mod 10)])"

section \<open>The confirmation handler (supabase/functions/send-confirmation/index.ts)\<close>

subsection \<open>Configuration and constants\<close>

definition CONFIG_EMAIL_FROM :: string where
  "CONFIG_EMAIL_FROM = ''Innovation Community <testing-email@lovable.dev>''"

definition CONFIG_AI_MODEL :: string where
  "CONFIG_AI_MODEL = ''gpt-4o-mini''"

definition CONFIG_MAX_TOKENS :: nat where
  "CONFIG_MAX_TOKENS = 200"

definition CONFIG_TEMPERATURE :: rat where
  "CONFIG_TEMPERATURE = 8 / 10"

definition CONFIG_CONTENT_LIMIT :: nat where
  "CONFIG_CONTENT_LIMIT = 150"

definition HTTP_HEADERS_CORS :: "(string \<times> string) list" where
  "HTTP_HEADERS_CORS =
     [(''Access-Control-Allow-Origin'', ''*''),
      (''Access-Control-Allow-Headers'', ''authorization, x-client-info, apikey, content-type'')]"

definition HTTP_HEADERS_JSON :: "(string \<times> string) list" where
  "HTTP_HEADERS_JSON = [(''Content-Type'', ''application/json'')]"

subsection \<open>The outside world\<close>

text \<open>
  The handler calls two services and reads the clock. What they answer is not the
  handler's to decide, so the model takes it as a parameter: \<open>fetch_completion\<close> is the
  \<^verbatim>\<open>fetch\<close> of the completion API followed by \<^verbatim>\<open>aiResponse.json()\<close>, \<open>emails_send\<close>
  is \<^verbatim>\<open>emailClient.emails.send\<close>, each a function of the request it is given, and
  \<open>now_iso\<close> is \<^verbatim>\<open>new Date().toISOString()\<close>. The two keys of \<^verbatim>\<open>CONFIG\<close> are
  read from the process environment and belong to the services' side. What is written
  to the console is left out: nothing reads it.
\<close>

record ai_request =
  ai_model :: string
  ai_system_content :: string
  ai_user_content :: string
  ai_temperature :: rat
  ai_max_tokens :: nat

datatype ai_outcome =
    FetchRejects js_error
  | JsonRejects js_error
  | JsonResolves jsval

record email_request =
  mail_from :: string
  mail_to :: "jsval list"
  mail_subject :: string
  mail_html :: string

record env =
  fetch_completion :: "ai_request \<Rightarrow> ai_outcome"
  emails_send :: "email_request \<Rightarrow> js_error + jsval"
  now_iso :: string

subsection \<open>Content generation\<close>

definition generateFallbackMessage :: "string \<Rightarrow> string \<Rightarrow> string" where
  "generateFallbackMessage name industry =
     ''Hello '' @ name @ ''! '' @ glowing_star @
     '' Welcome to our innovation community! We'' @ sq @ ''re excited to have a '' @
     industry @ '' professional join our network. Prepare to explore breakthrough '' @
     ''technologies, collaborate with industry pioneers, and discover '' @
     ''game-changing opportunities that will reshape your professional landscape. '' @
     ''Your innovation adventure starts now!''"

definition system_prompt :: string where
  "system_prompt =
     ''You are a specialist in crafting dynamic, personalized welcome messages for '' @
     ''an elite innovation community. Generate compelling, energetic content that '' @
     ''inspires recipients about transforming their industry. Keep total length '' @
     ''under '' @ decimal CONFIG_CONTENT_LIMIT @ '' words.''"

definition user_prompt :: "string \<Rightarrow> string \<Rightarrow> string" where
  "user_prompt recipientName userIndustry =
     ''Craft an inspiring welcome message for '' @ recipientName @ '' from the '' @
     userIndustry @
     '' sector. Highlight how our innovation community will empower them to '' @
     ''revolutionize their specific field. Be motivational and industry-focused, '' @
     ''mentioning relevant opportunities and breakthrough innovations they can '' @
     ''participate in.''"

definition aiRequest :: "string \<Rightarrow> string \<Rightarrow> ai_request" where
  "aiRequest recipientName userIndustry =
     \<lparr>ai_model = CONFIG_AI_MODEL,
      ai_system_content = system_prompt,
      ai_user_content = user_prompt recipientName userIndustry,
      ai_temperature = CONFIG_TEMPERATURE,
      ai_max_tokens = CONFIG_MAX_TOKENS\<rparr>"

text \<open>
  \<^verbatim>\<open>responseData?.choices[0]?.message?.content\<close>. A \<^verbatim>\<open>?.\<close> on \<^verbatim>\<open>null\<close> or
  \<^verbatim>\<open>undefined\<close> ends the whole chain with \<^verbatim>\<open>undefined\<close>; the index \<^verbatim>\<open>[0]\<close> has no
  \<^verbatim>\<open>?.\<close> before it and throws when \<^verbatim>\<open>choices\<close> is missing.
\<close>

definition first_completion :: "jsval \<Rightarrow> js_error + jsval" where
  "first_completion responseData =
     (if nullish responseData then Inr JUndefined
      else case get_prop responseData ''choices'' of
        Inl e \<Rightarrow> Inl e
      | Inr choices \<Rightarrow>
          (case get_index0 choices of
             Inl e \<Rightarrow> Inl e
           | Inr choice \<Rightarrow>
               if nullish choice then Inr JUndefined
               else (case get_prop choice ''message'' of
                       Inl e \<Rightarrow> Inl e
                     | Inr msg \<Rightarrow>
                         if nullish msg then Inr JUndefined else get_prop msg ''content'')))"

text \<open>
  The two functions that build the prompt and the fallback message are called with the
  values taken out of the request body, whatever they are, and their template literals
  print them: \<^verbatim>\<open>${recipientName}\<close> before \<^verbatim>\<open>${userIndustry}\<close>, \<^verbatim>\<open>${name}\<close>
  before \<^verbatim>\<open>${industry}\<close>.
\<close>

definition aiRequest_of :: "jsval \<Rightarrow> jsval \<Rightarrow> js_error + ai_request" where
  "aiRequest_of recipientName userIndustry =
     and_then (toStr recipientName) (\<lambda>n.
     and_then (toStr userIndustry) (\<lambda>i. Inr (aiRequest n i)))"

definition generateFallbackMessage_of :: "jsval \<Rightarrow> jsval \<Rightarrow> js_error + jsval" where
  "generateFallbackMessage_of name industry =
     and_then (toStr name) (\<lambda>n.
     and_then (toStr industry) (\<lambda>i. Inr (JStr (generateFallbackMessage n i))))"

text \<open>
  The \<^verbatim>\<open>try\<close> block of \<^verbatim>\<open>createPersonalizedWelcomeMessage\<close>: the request is built,
  sent, the answer parsed and read, and the fallback message is built only when the
  content is falsy.
\<close>

definition welcome_try :: "env \<Rightarrow> jsval \<Rightarrow> jsval \<Rightarrow> js_error + jsval" where
  "welcome_try w recipientName userIndustry =
     and_then (aiRequest_of recipientName userIndustry) (\<lambda>request.
       case fetch_completion w request of
         FetchRejects err \<Rightarrow> Inl err
       | JsonRejects err \<Rightarrow> Inl err
       | JsonResolves responseData \<Rightarrow>
           and_then (first_completion responseData) (\<lambda>content.
             if truthy content then Inr content
             else generateFallbackMessage_of recipientName userIndustry))"

text \<open>
  The \<^verbatim>\<open>catch\<close> returns the fallback message, whatever was thrown; what building that
  message throws leaves the function.
\<close>

definition createPersonalizedWelcomeMessage :: "env \<Rightarrow> jsval \<Rightarrow> jsval \<Rightarrow> js_error + jsval" where
  "createPersonalizedWelcomeMessage w recipientName userIndustry =
     (case welcome_try w recipientName userIndustry of
        Inr message \<Rightarrow> Inr message
      | Inl err \<Rightarrow> generateFallbackMessage_of recipientName userIndustry)"

subsection \<open>Template rendering\<close>

text \<open>\<^verbatim>\<open>s.replace(/\n/g, '<br>')\<close>: every line feed becomes \<^verbatim>\<open><br>\<close>.\<close>

definition replace_newlines :: "string \<Rightarrow> string" where
  "replace_newlines s = concat (map (\<lambda>c. if c = CHR 0x0A then ''<br>'' else [c]) s)"

definition buildEmailTemplate :: "string \<Rightarrow> string \<Rightarrow> string \<Rightarrow> string" where
  "buildEmailTemplate name industry personalizedMessage =
     nl @
     ''    <div style='' @ dq @ ''font-family: '' @ sq @ ''Segoe UI'' @ sq @
     '', Tahoma, Geneva, Verdana, sans-serif; max-width: 650px; margin: 0 auto; '' @
     ''padding: 25px; background-color: #fafafa;'' @ dq @ ''>'' @ nl @
     ''      <header style='' @ dq @ ''text-align: center; margin-bottom: 35px;'' @ dq @
     ''>'' @ nl @
     ''        <h1 style='' @ dq @
     ''color: #2c3e50; margin-bottom: 15px; font-size: 28px;'' @ dq @ ''>'' @ rocket @
     '' Innovation Revolution Awaits!</h1>'' @ nl @
     ''        <div style='' @ dq @
     ''height: 3px; background: linear-gradient(90deg, #3498db, #9b59b6); '' @
     ''border-radius: 2px; width: 100px; margin: 0 auto;'' @ dq @ ''></div>'' @ nl @
     ''      </header>'' @ nl @
     ''      '' @ nl @
     ''      <main style='' @ dq @
     ''background: linear-gradient(145deg, #4a90e2 0%, #7b68ee 100%); padding: '' @
     ''35px; border-radius: 15px; color: white; margin-bottom: 35px; box-shadow: 0 '' @
     ''8px 32px rgba(0,0,0,0.1);'' @ dq @ ''>'' @ nl @
     ''        <div style='' @ dq @
     ''font-size: 19px; line-height: 1.7; text-align: center;'' @ dq @ ''>'' @ nl @
     ''          '' @ replace_newlines personalizedMessage @ nl @
     ''        </div>'' @ nl @
     ''      </main>'' @ nl @
     ''      '' @ nl @
     ''      <section style='' @ dq @
     ''background: white; padding: 30px; border-radius: 12px; margin-bottom: 30px; '' @
     ''border-left: 4px solid #3498db; box-shadow: 0 4px 16px rgba(0,0,0,0.05);'' @ dq @
     ''>'' @ nl @
     ''        <h3 style='' @ dq @
     ''color: #2c3e50; margin-top: 0; font-size: 22px; margin-bottom: 20px;'' @ dq @ ''>'' @
     direct_hit @ '' Your Innovation Journey Includes:</h3>'' @ nl @
     ''        <div style='' @ dq @ ''color: #555; line-height: 1.8; font-size: 16px;'' @
     dq @ ''>'' @ nl @
     ''          <div style='' @ dq @ ''margin-bottom: 12px;'' @ dq @ ''>'' @ light_bulb @
     '' <strong>Industry-specific insights</strong> for '' @ industry @
     '' transformation</div>'' @ nl @
     ''          <div style='' @ dq @ ''margin-bottom: 12px;'' @ dq @ ''>'' @ microscope @
     '' <strong>Priority access</strong> to revolutionary '' @ industry @
     '' innovations</div>'' @ nl @
     ''          <div style='' @ dq @ ''margin-bottom: 12px;'' @ dq @ ''>'' @ globe @
     '' <strong>Network</strong> with top '' @ industry @
     '' innovators and thought leaders</div>'' @ nl @
     ''          <div style='' @ dq @ ''margin-bottom: 12px;'' @ dq @ ''>'' @ high_voltage @
     '' <strong>Accelerate solutions</strong> to '' @ industry @
     '' industry challenges</div>'' @ nl @
     ''        </div>'' @ nl @
     ''      </section>'' @ nl @
     ''      '' @ nl @
     ''      <footer style='' @ dq @
     ''text-align: center; padding: 25px 0; border-top: 2px solid #ecf0f1;'' @ dq @ ''>'' @
     nl @
     ''        <p style='' @ dq @ ''color: #7f8c8d; margin: 0; font-size: 16px;'' @ dq @
     ''>'' @ nl @
     ''          Ready to transform '' @ industry @ ''?<br>'' @ nl @
     ''          <strong style='' @ dq @ ''color: #2c3e50;'' @ dq @
     ''>The Innovation Community Leadership</strong>'' @ nl @
     ''        </p>'' @ nl @
     ''      </footer>'' @ nl @
     ''    </div>'' @ nl @
     ''  ''"

text \<open>
  The call of \<^verbatim>\<open>buildEmailTemplate\<close> in \<^verbatim>\<open>processEmailDelivery\<close>. The message is
  the value that content generation returned, and \<^verbatim>\<open>personalizedMessage.replace\<close> is
  a method call: only a string has that method, \<^verbatim>\<open>null\<close> and \<^verbatim>\<open>undefined\<close> have
  no properties at all, and in anything else \<^verbatim>\<open>replace\<close> is no function. The template
  prints \<^verbatim>\<open>${industry}\<close> after that and \<^verbatim>\<open>${name}\<close> nowhere; \<open>name\<close> and
  \<open>industry\<close> are the strings that line 130 has printed already, printing a value
  again giving the same string.
\<close>

definition render :: "string \<Rightarrow> string \<Rightarrow> jsval \<Rightarrow> js_error + string" where
  "render name industry personalizedMessage =
     (case personalizedMessage of
        JStr s \<Rightarrow> Inr (buildEmailTemplate name industry s)
      | JUndefined \<Rightarrow>
          Inl (TypeError (''Cannot read properties of undefined (reading '' @ sq @ ''replace'' @
            sq @ '')''))
      | JNull \<Rightarrow>
          Inl (TypeError (''Cannot read properties of null (reading '' @ sq @ ''replace'' @ sq @
            '')''))
      | _ \<Rightarrow> Inl (TypeError ''personalizedMessage.replace is not a function''))"

subsection \<open>Delivery\<close>

definition email_subject :: "string \<Rightarrow> string" where
  "email_subject name =
     rocket @ '' '' @ name @ '', Welcome to the Innovation Revolution!''"

text \<open>
  \<^verbatim>\<open>const { name, email, industry } = requestData\<close> throws on \<^verbatim>\<open>null\<close> and
  \<^verbatim>\<open>undefined\<close> and reads three properties of anything else.
\<close>

definition destructure :: "jsval \<Rightarrow> js_error + (jsval \<times> jsval \<times> jsval)" where
  "destructure requestData =
     (if nullish requestData then
        Inl (TypeError (''Cannot destructure property '' @ sq @ ''name'' @ sq @ '' of '' @ sq @
          ''requestData'' @ sq @ '' as it is '' @
          (if requestData = JNull then ''null'' else ''undefined'') @ ''.''))
      else case (get_prop requestData ''name'', get_prop requestData ''email'',
                 get_prop requestData ''industry'') of
        (Inr name, Inr email, Inr industry) \<Rightarrow> Inr (name, email, industry)
      | (Inl e, _, _) \<Rightarrow> Inl e
      | (_, Inl e, _) \<Rightarrow> Inl e
      | (_, _, Inl e) \<Rightarrow> Inl e)"

text \<open>
  The argument of \<^verbatim>\<open>emailClient.emails.send\<close>; \<open>name\<close> is the printed name, for
  the subject, and \<open>email\<close> goes into \<^verbatim>\<open>to\<close> as it is.
\<close>

definition email_for :: "string \<Rightarrow> jsval \<Rightarrow> string \<Rightarrow> email_request" where
  "email_for name email emailTemplate =
     \<lparr>mail_from = CONFIG_EMAIL_FROM,
      mail_to = [email],
      mail_subject = email_subject name,
      mail_html = emailTemplate\<rparr>"

text \<open>
  \<^verbatim>\<open>processEmailDelivery\<close> in its two halves: everything up to the argument of
  \<^verbatim>\<open>emailClient.emails.send\<close> (\<open>prepared_email\<close>), then the call itself. The first
  half is the destructuring, the template literal of the first \<^verbatim>\<open>console.log\<close> (line
  130), which prints \<^verbatim>\<open>${name}\<close> and \<^verbatim>\<open>${industry}\<close>, content generation, the
  template literal of the second \<^verbatim>\<open>console.log\<close> (line 133), which prints
  \<^verbatim>\<open>${customContent}\<close>, and the template. An exception of the first half leaves before
  any email is handed to the client. What the console shows is left out; that the two
  literals are evaluated is not.
\<close>

definition prepared_email :: "env \<Rightarrow> jsval \<Rightarrow> js_error + email_request" where
  "prepared_email w requestData =
     and_then (destructure requestData) (\<lambda>(name, email, industry).
     and_then (toStr name) (\<lambda>printed_name.
     and_then (toStr industry) (\<lambda>printed_industry.
     and_then (createPersonalizedWelcomeMessage w name industry) (\<lambda>customContent.
     and_then (toStr customContent) (\<lambda>printed_content.
     and_then (render printed_name printed_industry customContent) (\<lambda>emailTemplate.
       Inr (email_for printed_name email emailTemplate)))))))"

definition processEmailDelivery :: "env \<Rightarrow> jsval \<Rightarrow> js_error + jsval" where
  "processEmailDelivery w requestData =
     (case prepared_email w requestData of
        Inl e \<Rightarrow> Inl e
      | Inr m \<Rightarrow> emails_send w m)"

subsection \<open>The request handler\<close>

text \<open>
  A request is its method and what \<^verbatim>\<open>request.json()\<close> gives: the parsed body, or the
  \<^verbatim>\<open>SyntaxError\<close> of a body that is not JSON. A response body is \<open>None\<close> for
  \<^verbatim>\<open>null\<close>, or the object handed to \<^verbatim>\<open>JSON.stringify\<close> less the properties whose
  value is \<^verbatim>\<open>undefined\<close>, which \<^verbatim>\<open>JSON.stringify\<close> leaves out.
\<close>

record request =
  req_method :: string
  req_json :: "js_error + jsval"

record response =
  status :: nat
  headers :: "(string \<times> string) list"
  body :: "(string \<times> jsval) list option"

definition stringify :: "(string \<times> jsval) list \<Rightarrow> (string \<times> jsval) list" where
  "stringify kvs = filter (\<lambda>(k, v). v \<noteq> JUndefined) kvs"

definition success_response :: "jsval \<Rightarrow> response" where
  "success_response messageId =
     \<lparr>status = 200,
      headers = HTTP_HEADERS_JSON @ HTTP_HEADERS_CORS,
      body = Some (stringify
        [(''success'', JBool True), (''messageId'', messageId), (''status'', JStr ''delivered'')])\<rparr>"

definition failure_response :: "env \<Rightarrow> js_error \<Rightarrow> response" where
  "failure_response w error =
     \<lparr>status = 500,
      headers = HTTP_HEADERS_JSON @ HTTP_HEADERS_CORS,
      body = Some (stringify
        [(''success'', JBool False), (''error'', JStr (err_message error)),
         (''timestamp'', JStr (now_iso w))])\<rparr>"

text \<open>\<^verbatim>\<open>emailResult.data?.id\<close>.\<close>

definition message_id :: "jsval \<Rightarrow> js_error + jsval" where
  "message_id emailResult =
     (case get_prop emailResult ''data'' of
        Inl e \<Rightarrow> Inl e
      | Inr d \<Rightarrow> if nullish d then Inr JUndefined else get_prop d ''id'')"

definition requestHandler :: "env \<Rightarrow> request \<Rightarrow> response" where
  "requestHandler w request =
     (if req_method request = ''OPTIONS'' then
        \<lparr>status = 200, headers = HTTP_HEADERS_CORS, body = None\<rparr>
      else case req_json request of
        Inl error \<Rightarrow> failure_response w error
      | Inr requestBody \<Rightarrow>
          (case processEmailDelivery w requestBody of
             Inl error \<Rightarrow> failure_response w error
           | Inr emailResult \<Rightarrow>
               (case message_id emailResult of
                  Inl error \<Rightarrow> failure_response w error
                | Inr messageId \<Rightarrow> success_response messageId)))"


section \<open>The lead capture form (src/components/LeadCaptureForm.tsx)\<close>

record FormData =
  name :: string
  email :: string
  industry :: string

record LeadRecord = FormData +
  submitted_at :: string

record ValidationError =
  field :: string
  message :: string

definition INITIAL_FORM_STATE :: FormData where
  "INITIAL_FORM_STATE = \<lparr>name = [], email = [], industry = []\<rparr>"

text \<open>The component's five \<^verbatim>\<open>useState\<close> cells.\<close>

record form_state =
  formData :: FormData
  errors :: "ValidationError list"
  isSubmitted :: bool
  leadRecords :: "LeadRecord list"
  isLoading :: bool

text \<open>
  What the form does not decide: \<open>functions_invoke\<close> is
  \<^verbatim>\<open>supabase.functions.invoke\<close>, which rejects or resolves with an object whose
  \<^verbatim>\<open>error\<close> the form reads (the \<open>jsval\<close> here is that \<^verbatim>\<open>error\<close>), and
  \<open>client_now_iso\<close> is \<^verbatim>\<open>new Date().toISOString()\<close>.
\<close>

record client_env =
  functions_invoke :: "string \<Rightarrow> FormData \<Rightarrow> js_error + jsval"
  client_now_iso :: string

text \<open>
  The inner \<^verbatim>\<open>catch\<close> logs and throws the same error again, so an error leaves
  \<^verbatim>\<open>sendConfirmationEmail\<close> whether \<^verbatim>\<open>invoke\<close> rejected or reported one.
\<close>

definition sendConfirmationEmail :: "client_env \<Rightarrow> FormData \<Rightarrow> js_error + unit" where
  "sendConfirmationEmail c leadData =
     (case functions_invoke c ''send-confirmation'' leadData of
        Inl e \<Rightarrow> Inl e
      | Inr error \<Rightarrow>
          if truthy error then Inl (Error ''Email service unavailable'') else Inr ())"

definition newLeadRecord :: "client_env \<Rightarrow> FormData \<Rightarrow> LeadRecord" where
  "newLeadRecord c fd =
     \<lparr>name = name fd, email = email fd, industry = industry fd,
      submitted_at = client_now_iso c\<rparr>"

text \<open>
  One run of \<^verbatim>\<open>handleFormSubmission\<close>, from the state the component rendered with to
  the state after the \<^verbatim>\<open>finally\<close>. \<^verbatim>\<open>validateLeadForm\<close> is imported from
  \<^verbatim>\<open>@/lib/validation\<close>, a file that is not among the sources; the form takes it as
  the parameter \<open>validate\<close>.
\<close>

definition handleFormSubmission ::
  "(FormData \<Rightarrow> ValidationError list) \<Rightarrow> client_env \<Rightarrow> form_state \<Rightarrow> form_state" where
  "handleFormSubmission validate c s =
     (let s1 = s\<lparr>isLoading := True\<rparr>;
          validationErrors = validate (formData s);
          s2 = s1\<lparr>errors := validationErrors\<rparr>;
          s3 = (if length validationErrors = 0 then
                  (case sendConfirmationEmail c (formData s) of
                     Inl error \<Rightarrow> s2
                   | Inr u \<Rightarrow>
                       s2\<lparr>leadRecords := leadRecords s2 @ [newLeadRecord c (formData s)],
                          isSubmitted := True,
                          formData := INITIAL_FORM_STATE\<rparr>)
                else s2)
      in s3\<lparr>isLoading := False\<rparr>)"

section \<open>The validator (src/lib/validation.ts)\<close>

text \<open>
  Modelled from the spec: \<^verbatim>\<open>validateLeadForm\<close>, whose file
  \<^verbatim>\<open>src/lib/validation.ts\<close> is not among the sources. The spec gives three rules, checked
  in the order name, email, industry. The industry identifiers are the \<^verbatim>\<open>value\<close>s of
  \<^verbatim>\<open>INDUSTRY_OPTIONS\<close> in the form.
\<close>

definition INDUSTRY_VALUES :: "string list" where
  "INDUSTRY_VALUES =
     [''technology'', ''healthcare'', ''finance'', ''education'', ''retail'',
      ''manufacturing'', ''consulting'', ''other'']"

text \<open>
  Modelled from the spec: the name is measured in characters. A string here being UTF-8
  bytes, a character is a byte that is no continuation byte (\<^verbatim>\<open>10xxxxxx\<close>) together
  with the continuation bytes that follow it.
\<close>

definition is_continuation :: "char \<Rightarrow> bool" where
  "is_continuation b = (0x80 \<le> (of_char b :: nat) \<and> (of_char b :: nat) < 0xC0)"

function characters :: "string \<Rightarrow> string list" where
  "characters [] = []"
| "characters (b # bs) =
     (b # takeWhile is_continuation bs) # characters (dropWhile is_continuation bs)"
  by pat_completeness auto
termination
  by (relation "measure length") (auto simp add: length_dropWhile_le less_Suc_eq_le)

text \<open>
  Modelled from the spec: trimming removes the white space at both ends. The white space
  characters are those of the form's language: tab, line feed, vertical tab, form feed,
  carriage return, space, and beyond ASCII U+00A0, U+1680, U+2000 to U+200A, U+2028,
  U+2029, U+202F, U+205F, U+3000 and U+FEFF.
\<close>

definition WHITE_SPACE :: "string list" where
  "WHITE_SPACE =
     [[CHR 0x09], [CHR 0x0A], [CHR 0x0B], [CHR 0x0C], [CHR 0x0D], [CHR 0x20],
      [CHR 0xC2, CHR 0xA0], [CHR 0xE1, CHR 0x9A, CHR 0x80],
      [CHR 0xE2, CHR 0x80, CHR 0x80], [CHR 0xE2, CHR 0x80, CHR 0x81],
      [CHR 0xE2, CHR 0x80, CHR 0x82], [CHR 0xE2, CHR 0x80, CHR 0x83],
      [CHR 0xE2, CHR 0x80, CHR 0x84], [CHR 0xE2, CHR 0x80, CHR 0x85],
      [CHR 0xE2, CHR 0x80, CHR 0x86], [CHR 0xE2, CHR 0x80, CHR 0x87],
      [CHR 0xE2, CHR 0x80, CHR 0x88], [CHR 0xE2, CHR 0x80, CHR 0x89],
      [CHR 0xE2, CHR 0x80, CHR 0x8A], [CHR 0xE2, CHR 0x80, CHR 0xA8],
      [CHR 0xE2, CHR 0x80, CHR 0xA9], [CHR 0xE2, CHR 0x80, CHR 0xAF],
      [CHR 0xE2, CHR 0x81, CHR 0x9F], [CHR 0xE3, CHR 0x80, CHR 0x80],
      [CHR 0xEF, CHR 0xBB, CHR 0xBF]]"

definition is_space :: "string \<Rightarrow> bool" where
  "is_space ch = (ch \<in> set WHITE_SPACE)"

definition trim :: "string list \<Rightarrow> string list" where
  "trim chs = rev (dropWhile is_space (rev (dropWhile is_space chs)))"

text \<open>
  Modelled from the spec: the email shape is \<^verbatim>\<open>local@domain\<close> with at least one dot in
  the domain; the local part is what stands before the first \<^verbatim>\<open>@\<close>.
\<close>

definition email_shape :: "string \<Rightarrow> bool" where
  "email_shape s =
     (let local_part = takeWhile (\<lambda>ch. ch \<noteq> CHR ''@'') s;
          rest = dropWhile (\<lambda>ch. ch \<noteq> CHR ''@'') s
      in local_part \<noteq> [] \<and> rest \<noteq> [] \<and> CHR ''.'' \<in> set (tl rest))"

text \<open>Modelled from the spec: the rule of each field, with the spec's messages.\<close>

definition trimmed_length :: "string \<Rightarrow> nat" where
  "trimmed_length s = length (trim (characters s))"

definition name_errors :: "string \<Rightarrow> ValidationError list" where
  "name_errors n =
     (if trimmed_length n = 0 then [\<lparr>field = ''name'', message = ''Name is required''\<rparr>]
      else if trimmed_length n < 2 \<or> 50 < trimmed_length n then
        [\<lparr>field = ''name'', message = ''Name must be between 2 and 50 characters''\<rparr>]
      else [])"

definition email_errors :: "string \<Rightarrow> ValidationError list" where
  "email_errors e =
     (if email_shape e then []
      else [\<lparr>field = ''email'', message = ''Please enter a valid email address''\<rparr>])"

definition industry_errors :: "string \<Rightarrow> ValidationError list" where
  "industry_errors i =
     (if i \<in> set INDUSTRY_VALUES then []
      else [\<lparr>field = ''industry'', message = ''Please select an industry''\<rparr>])"

text \<open>Modelled from the spec: \<^verbatim>\<open>validate(input)\<close>, the errors in the order name, email, industry.\<close>

definition validateLeadForm :: "FormData \<Rightarrow> ValidationError list" where
  "validateLeadForm d = name_errors (name d) @ email_errors (email d) @ industry_errors (industry d)"

section \<open>What the claims speak of\<close>

text \<open>
  The content step has succeeded when the chain over the response gives a non-empty
  string, the first completion's text; it has failed in every other case: the
  \<^verbatim>\<open>fetch\<close> rejects, the response does not parse, the chain throws, or it ends in
  anything but a non-empty string.
\<close>

definition is_text :: "jsval \<Rightarrow> bool" where
  "is_text v = (case v of JStr s \<Rightarrow> s \<noteq> [] | _ \<Rightarrow> False)"

definition ai_step_failed :: "ai_outcome \<Rightarrow> bool" where
  "ai_step_failed out =
     (case out of
        FetchRejects err \<Rightarrow> True
      | JsonRejects err \<Rightarrow> True
      | JsonResolves responseData \<Rightarrow>
          (case first_completion responseData of
             Inl err \<Rightarrow> True
           | Inr content \<Rightarrow> \<not> is_text content))"

text \<open>
  The one failure that the \<^verbatim>\<open>||\<close> lets through: a response whose first completion's
  content is truthy and not a string (a number, \<^verbatim>\<open>true\<close>, an array, an object).
\<close>

definition passes_non_string :: "ai_outcome \<Rightarrow> bool" where
  "passes_non_string out =
     (case out of
        JsonResolves responseData \<Rightarrow>
          (case first_completion responseData of
             Inr content \<Rightarrow> truthy content \<and> \<not> is_text content
           | Inl err \<Rightarrow> False)
      | _ \<Rightarrow> False)"

text \<open>
  The email that carries the fallback message, for the printed name \<open>n\<close>, the email
  value \<open>e\<close> and the printed industry \<open>i\<close>.
\<close>

definition fallback_email :: "string \<Rightarrow> jsval \<Rightarrow> string \<Rightarrow> email_request" where
  "fallback_email n e i = email_for n e (buildEmailTemplate n i (generateFallbackMessage n i))"

text \<open>
  What the handler answers once the email \<open>m\<close> is in the delivery client's hands: the
  rest of the \<^verbatim>\<open>try\<close> block after \<^verbatim>\<open>prepared_email\<close>.
\<close>

definition answer_after_send :: "env \<Rightarrow> email_request \<Rightarrow> response" where
  "answer_after_send w m =
     (case emails_send w m of
        Inl error \<Rightarrow> failure_response w error
      | Inr emailResult \<Rightarrow>
          (case message_id emailResult of
             Inl error \<Rightarrow> failure_response w error
           | Inr messageId \<Rightarrow> success_response messageId))"

text \<open>The form's call has failed when \<^verbatim>\<open>invoke\<close> rejects or reports an error.\<close>

definition call_failed :: "client_env \<Rightarrow> FormData \<Rightarrow> bool" where
  "call_failed c d =
     (case functions_invoke c ''send-confirmation'' d of
        Inl e \<Rightarrow> True
      | Inr error \<Rightarrow> truthy error)"

subsection \<open>Sample requests, answers and worlds\<close>

definition john :: jsval where
  "john = JObj [(''name'', JStr ''John Doe''), (''email'', JStr ''john@example.com''),
     (''industry'', JStr ''technology'')]"

definition unchecked_body :: jsval where
  "unchecked_body = JObj [(''name'', JStr []), (''email'', JStr ''bad''),
     (''industry'', JStr ''astrology'')]"

definition post :: "jsval \<Rightarrow> request" where
  "post b = \<lparr>req_method = ''POST'', req_json = Inr b\<rparr>"

definition completion_of :: "jsval \<Rightarrow> jsval" where
  "completion_of content =
     JObj [(''choices'', JArr [JObj [(''message'', JObj [(''content'', content)])]])]"

definition delivered_as :: "string \<Rightarrow> jsval" where
  "delivered_as i = JObj [(''data'', JObj [(''id'', JStr i)]), (''error'', JNull)]"

definition delivery_refused :: jsval where
  "delivery_refused =
     JObj [(''data'', JNull),
           (''error'', JObj [(''name'', JStr ''validation_error''),
                             (''message'', JStr ''API key is invalid'')])]"

definition world :: "ai_outcome \<Rightarrow> (js_error + jsval) \<Rightarrow> env" where
  "world ai delivery =
     \<lparr>fetch_completion = (\<lambda>r. ai), emails_send = (\<lambda>m. delivery),
      now_iso = ''2025-01-01T00:00:00.000Z''\<rparr>"

definition ai_down :: ai_outcome where
  "ai_down = FetchRejects (TypeError ''fetch failed'')"

definition e_acute :: string where
  "e_acute = [CHR 0xC3, CHR 0x89]"

definition cyrillic_26 :: string where
  "cyrillic_26 = concat (replicate 26 [CHR 0xD0, CHR 0x90])"

definition padded_name :: string where
  "padded_name = [CHR 0xC2, CHR 0xA0] @ '' J '' @ [CHR 0xE3, CHR 0x80, CHR 0x80]"

definition sample_state :: form_state where
  "sample_state =
     \<lparr>formData = \<lparr>name = ''John Doe'', email = ''john@example.com'', industry = ''technology''\<rparr>,
      errors = [], isSubmitted = False, leadRecords = [], isLoading = False\<rparr>"

definition client_world :: "(js_error + jsval) \<Rightarrow> client_env" where
  "client_world answer =
     \<lparr>functions_invoke = (\<lambda>f d. answer), client_now_iso = ''2025-01-01T00:00:00.000Z''\<rparr>"

section \<open>The handler's claims\<close>

subsection \<open>What content generation returns\<close>

lemma welcome_message_fallback:
  assumes "toStr n = Inr ns" and "toStr i = Inr is"
      and "ai_step_failed (fetch_completion w (aiRequest ns is))"
      and "\<not> passes_non_string (fetch_completion w (aiRequest ns is))"
  shows "createPersonalizedWelcomeMessage w n i = Inr (JStr (generateFallbackMessage ns is))"
proof (cases "fetch_completion w (aiRequest ns is)")
  case (JsonResolves responseData)
  show ?thesis
  proof (cases "first_completion responseData")
    case (Inl err)
    with JsonResolves assms(1,2) show ?thesis
      by (simp add: createPersonalizedWelcomeMessage_def welcome_try_def aiRequest_of_def
          generateFallbackMessage_of_def)
  next
    case (Inr content)
    with JsonResolves assms(3,4) have "\<not> truthy content"
      by (simp add: ai_step_failed_def passes_non_string_def)
    with JsonResolves Inr assms(1,2) show ?thesis
      by (simp add: createPersonalizedWelcomeMessage_def welcome_try_def aiRequest_of_def
          generateFallbackMessage_of_def)
  qed
qed (simp_all add: assms(1,2) createPersonalizedWelcomeMessage_def welcome_try_def
    aiRequest_of_def generateFallbackMessage_of_def)

lemma welcome_message_passes:
  assumes "toStr n = Inr ns" and "toStr i = Inr is"
      and "fetch_completion w (aiRequest ns is) = JsonResolves responseData"
      and "first_completion responseData = Inr content" and "truthy content"
  shows "createPersonalizedWelcomeMessage w n i = Inr content"
  using assms
  by (simp add: createPersonalizedWelcomeMessage_def welcome_try_def aiRequest_of_def)

lemma welcome_message_returns:
  assumes "toStr n = Inr ns" and "toStr i = Inr is"
  shows "\<exists>c. createPersonalizedWelcomeMessage w n i = Inr c"
proof (cases "welcome_try w n i")
  case (Inl err)
  with assms show ?thesis
    by (simp add: createPersonalizedWelcomeMessage_def generateFallbackMessage_of_def)
next
  case (Inr c)
  then show ?thesis by (simp add: createPersonalizedWelcomeMessage_def)
qed

subsection \<open>What reaches the delivery client\<close>

lemma prepared_with_text:
  assumes "destructure b = Inr (n, e, i)" and "toStr n = Inr ns" and "toStr i = Inr is"
      and "createPersonalizedWelcomeMessage w n i = Inr (JStr s)"
  shows "prepared_email w b = Inr (email_for ns e (buildEmailTemplate ns is s))"
  using assms by (simp add: prepared_email_def render_def)

lemma prepared_without_text:
  assumes "destructure b = Inr (n, e, i)" and "toStr n = Inr ns" and "toStr i = Inr is"
      and "createPersonalizedWelcomeMessage w n i = Inr c" and "\<And>s. c \<noteq> JStr s"
  shows "\<exists>err. prepared_email w b = Inl err"
proof (cases "toStr c")
  case (Inl err)
  with assms(1-4) show ?thesis by (simp add: prepared_email_def)
next
  case (Inr printed)
  have "\<exists>err. render ns is c = Inl err"
  proof (cases c)
    case (JStr s)
    with assms(5) show ?thesis by blast
  qed (simp_all add: render_def)
  with Inr assms(1-4) show ?thesis by (auto simp add: prepared_email_def)
qed

lemma prepared_unprintable_name:
  assumes "destructure b = Inr (n, e, i)" and "toStr n = Inl err"
  shows "prepared_email w b = Inl err"
  using assms by (simp add: prepared_email_def)

lemma prepared_unprintable_industry:
  assumes "destructure b = Inr (n, e, i)" and "toStr n = Inr ns" and "toStr i = Inl err"
  shows "prepared_email w b = Inl err"
  using assms by (simp add: prepared_email_def)

lemma handler_after_prepare:
  assumes "req_method r \<noteq> ''OPTIONS''" and "req_json r = Inr b" and "prepared_email w b = Inr m"
  shows "requestHandler w r = answer_after_send w m"
  using assms by (simp add: requestHandler_def processEmailDelivery_def answer_after_send_def)

lemma exception_before_send_gives_500:
  assumes "req_method r \<noteq> ''OPTIONS''" and "req_json r = Inr b" and "prepared_email w b = Inl err"
  shows "requestHandler w r = failure_response w err"
  using assms by (simp add: requestHandler_def processEmailDelivery_def)

lemma message_id_total:
  assumes "\<not> nullish res"
  shows "\<exists>mid. message_id res = Inr mid"
proof -
  from assms obtain d where d: "get_prop res ''data'' = Inr d"
    by (cases res) simp_all
  show ?thesis
  proof (cases "nullish d")
    case True
    with d show ?thesis by (simp add: message_id_def)
  next
    case False
    then obtain v where "get_prop d ''id'' = Inr v"
      by (cases d) simp_all
    with d False show ?thesis by (simp add: message_id_def)
  qed
qed

lemma destructure_john:
  "destructure john = Inr (JStr ''John Doe'', JStr ''john@example.com'', JStr ''technology'')"
  by (simp add: destructure_def john_def)

lemma john_prepared_when_ai_down:
  "prepared_email (world ai_down delivery) john =
     Inr (fallback_email ''John Doe'' (JStr ''john@example.com'') ''technology'')"
proof -
  have "createPersonalizedWelcomeMessage (world ai_down delivery) (JStr ''John Doe'')
      (JStr ''technology'') = Inr (JStr (generateFallbackMessage ''John Doe'' ''technology''))"
    by (simp add: createPersonalizedWelcomeMessage_def welcome_try_def aiRequest_of_def
        generateFallbackMessage_of_def world_def ai_down_def)
  with destructure_john show ?thesis
    by (simp add: prepared_with_text fallback_email_def)
qed

subsection \<open>Failures of the content step\<close>

text \<open>
  Claim C1, as amended. For a request whose body gives a \<open>name\<close> and an \<open>industry\<close>
  that print (every string does): when the content step fails (the fetch rejects, the
  response does not parse, the chain over it throws, or it holds no first completion
  text) and the response does not carry a truthy content that is not a string, the message
  is the deterministic fallback message, the email handed to the delivery client is the
  one rendered from it, and the handler's answer is whatever delivery of that email makes
  it: once the delivery client returns a result (anything but \<^verbatim>\<open>null\<close> or
  \<^verbatim>\<open>undefined\<close>) the answer is the 200, so the failure of the content step alone never
  turns the answer into a failure. When the response does carry a truthy content that is
  not a string, that content is the message, printing it or calling its
  \<^verbatim>\<open>replace\<close> throws, no email is handed to the delivery client and the answer is the
  500 with that exception's message.
\<close>

theorem ai_failure_falls_back:
  assumes "req_method r \<noteq> ''OPTIONS''" and "req_json r = Inr b"
      and "destructure b = Inr (n, e, i)"
      and "toStr n = Inr ns" and "toStr i = Inr is"
  shows "(ai_step_failed (fetch_completion w (aiRequest ns is))
          \<and> \<not> passes_non_string (fetch_completion w (aiRequest ns is)) \<longrightarrow>
            createPersonalizedWelcomeMessage w n i = Inr (JStr (generateFallbackMessage ns is))
            \<and> prepared_email w b = Inr (fallback_email ns e is)
            \<and> requestHandler w r = answer_after_send w (fallback_email ns e is)
            \<and> (\<forall>res. emails_send w (fallback_email ns e is) = Inr res \<and> \<not> nullish res \<longrightarrow>
                  status (requestHandler w r) = 200))
       \<and> (passes_non_string (fetch_completion w (aiRequest ns is)) \<longrightarrow>
            (\<exists>err. prepared_email w b = Inl err \<and> requestHandler w r = failure_response w err))"
proof (intro conjI impI)
  assume f: "ai_step_failed (fetch_completion w (aiRequest ns is))
          \<and> \<not> passes_non_string (fetch_completion w (aiRequest ns is))"
  then show msg: "createPersonalizedWelcomeMessage w n i = Inr (JStr (generateFallbackMessage ns is))"
    using welcome_message_fallback [OF assms(4,5)] by blast
  show prep: "prepared_email w b = Inr (fallback_email ns e is)"
    using prepared_with_text [OF assms(3,4,5) msg] by (simp add: fallback_email_def)
  show ans: "requestHandler w r = answer_after_send w (fallback_email ns e is)"
    by (rule handler_after_prepare [OF assms(1,2) prep])
  show "\<forall>res. emails_send w (fallback_email ns e is) = Inr res \<and> \<not> nullish res \<longrightarrow>
          status (requestHandler w r) = 200"
  proof (intro allI impI)
    fix res
    assume s: "emails_send w (fallback_email ns e is) = Inr res \<and> \<not> nullish res"
    with message_id_total obtain mid where "message_id res = Inr mid" by blast
    with s ans show "status (requestHandler w r) = 200"
      by (simp add: answer_after_send_def success_response_def)
  qed
next
  assume p: "passes_non_string (fetch_completion w (aiRequest ns is))"
  then obtain responseData content where
    o: "fetch_completion w (aiRequest ns is) = JsonResolves responseData"
    and c: "first_completion responseData = Inr content"
    and t: "truthy content" and nt: "\<not> is_text content"
    by (auto simp add: passes_non_string_def split: ai_outcome.splits sum.splits)
  from t nt have ns: "content \<noteq> JStr s" for s
    by (auto simp add: is_text_def)
  have "createPersonalizedWelcomeMessage w n i = Inr content"
    by (rule welcome_message_passes [OF assms(4,5) o c t])
  from prepared_without_text [OF assms(3,4,5) this ns]
  obtain err where "prepared_email w b = Inl err" by blast
  with exception_before_send_gives_500 [OF assms(1,2)]
  show "\<exists>err. prepared_email w b = Inl err \<and> requestHandler w r = failure_response w err"
    by blast
qed

theorem ai_failure_falls_back_witness:
  "req_method (post john) \<noteq> ''OPTIONS''
   \<and> req_json (post john) = Inr john
   \<and> destructure john = Inr (JStr ''John Doe'', JStr ''john@example.com'', JStr ''technology'')
   \<and> toStr (JStr ''John Doe'') = Inr ''John Doe''
   \<and> toStr (JStr ''technology'') = Inr ''technology''
   \<and> ai_step_failed (fetch_completion
         (world (JsonResolves (JObj [(''choices'', JArr [])])) (Inr (delivered_as ''msg_1'')))
         (aiRequest ''John Doe'' ''technology''))
   \<and> \<not> passes_non_string (fetch_completion
         (world (JsonResolves (JObj [(''choices'', JArr [])])) (Inr (delivered_as ''msg_1'')))
         (aiRequest ''John Doe'' ''technology''))
   \<and> requestHandler
         (world (JsonResolves (JObj [(''choices'', JArr [])])) (Inr (delivered_as ''msg_1'')))
         (post john) = success_response (JStr ''msg_1'')
   \<and> passes_non_string (fetch_completion
         (world (JsonResolves (completion_of (JArr [JStr ''hello'']))) (Inr (delivered_as ''msg_1'')))
         (aiRequest ''John Doe'' ''technology''))
   \<and> status (requestHandler
         (world (JsonResolves (completion_of (JArr [JStr ''hello'']))) (Inr (delivered_as ''msg_1'')))
         (post john)) = 500"
proof -
  let ?w = "world (JsonResolves (JObj [(''choices'', JArr [])])) (Inr (delivered_as ''msg_1''))"
  let ?v = "world (JsonResolves (completion_of (JArr [JStr ''hello'']))) (Inr (delivered_as ''msg_1''))"
  have h1: "req_method (post john) \<noteq> ''OPTIONS''" by (simp add: post_def)
  have h2: "req_json (post john) = Inr john" by (simp add: post_def)
  note h3 = destructure_john
  have h4: "toStr (JStr ''John Doe'') = Inr ''John Doe''" by simp
  have h5: "toStr (JStr ''technology'') = Inr ''technology''" by simp
  have h6: "ai_step_failed (fetch_completion ?w (aiRequest ''John Doe'' ''technology''))"
    by (simp add: world_def ai_step_failed_def first_completion_def is_text_def)
  have h7: "\<not> passes_non_string (fetch_completion ?w (aiRequest ''John Doe'' ''technology''))"
    by (simp add: world_def passes_non_string_def first_completion_def)
  have s: "answer_after_send ?w m = success_response (JStr ''msg_1'')" for m
    by (simp add: answer_after_send_def world_def message_id_def delivered_as_def)
  from ai_failure_falls_back [OF h1 h2 h3 h4 h5, of ?w] h6 h7 s
  have a: "requestHandler ?w (post john) = success_response (JStr ''msg_1'')" by simp
  have h8: "passes_non_string (fetch_completion ?v (aiRequest ''John Doe'' ''technology''))"
    by (simp add: world_def passes_non_string_def first_completion_def completion_of_def
        is_text_def)
  from ai_failure_falls_back [OF h1 h2 h3 h4 h5, of ?v] h8
  obtain err where "requestHandler ?v (post john) = failure_response ?v err" by blast
  then have b: "status (requestHandler ?v (post john)) = 500"
    by (simp add: failure_response_def)
  from h1 h2 h3 h4 h5 h6 h7 a h8 b show ?thesis by blast
qed

text \<open>
  Claim C1 as stated fails for a malformed response whose first completion's content is
  the number 42: the content step has no text, yet the number is returned as the message,
  \<^verbatim>\<open>personalizedMessage.replace\<close> throws in \<^verbatim>\<open>buildEmailTemplate\<close>, no email reaches
  the delivery client (which would have delivered), and the handler answers 500.
\<close>

theorem malformed_completion_counterexample:
  "ai_step_failed (fetch_completion
       (world (JsonResolves (completion_of (JNum ''42''))) (Inr (delivered_as ''msg_1'')))
       (aiRequest ''John Doe'' ''technology''))
   \<and> destructure john = Inr (JStr ''John Doe'', JStr ''john@example.com'', JStr ''technology'')
   \<and> createPersonalizedWelcomeMessage
       (world (JsonResolves (completion_of (JNum ''42''))) (Inr (delivered_as ''msg_1'')))
       (JStr ''John Doe'') (JStr ''technology'') = Inr (JNum ''42'')
   \<and> prepared_email
       (world (JsonResolves (completion_of (JNum ''42''))) (Inr (delivered_as ''msg_1''))) john
     = Inl (TypeError ''personalizedMessage.replace is not a function'')
   \<and> status (requestHandler
       (world (JsonResolves (completion_of (JNum ''42''))) (Inr (delivered_as ''msg_1'')))
       (post john)) = 500"
proof -
  let ?w = "world (JsonResolves (completion_of (JNum ''42''))) (Inr (delivered_as ''msg_1''))"
  have fc: "first_completion (completion_of (JNum ''42'')) = Inr (JNum ''42'')"
    by (simp add: first_completion_def completion_of_def)
  have a: "ai_step_failed (fetch_completion ?w (aiRequest ''John Doe'' ''technology''))"
    by (simp add: world_def ai_step_failed_def fc is_text_def)
  note d = destructure_john
  have c: "createPersonalizedWelcomeMessage ?w (JStr ''John Doe'') (JStr ''technology'')
      = Inr (JNum ''42'')"
    by (simp add: createPersonalizedWelcomeMessage_def welcome_try_def aiRequest_of_def
        world_def fc)
  have p: "prepared_email ?w john = Inl (TypeError ''personalizedMessage.replace is not a function'')"
    by (simp add: prepared_email_def d c render_def)
  have s: "status (requestHandler ?w (post john)) = 500"
    by (simp add: requestHandler_def post_def processEmailDelivery_def p failure_response_def)
  from a d c p s show ?thesis by simp
qed

subsection \<open>Failures of delivery\<close>

lemma thrown_delivery_error_gives_500:
  assumes "req_method r \<noteq> ''OPTIONS''" and "req_json r = Inr b" and "prepared_email w b = Inr m"
      and "emails_send w m = Inl err"
  shows "requestHandler w r =
     \<lparr>status = 500, headers = HTTP_HEADERS_JSON @ HTTP_HEADERS_CORS,
      body = Some [(''success'', JBool False), (''error'', JStr (err_message err)),
                   (''timestamp'', JStr (now_iso w))]\<rparr>"
  using assms
  by (simp add: handler_after_prepare answer_after_send_def failure_response_def stringify_def)

text \<open>
  Claim C2 fails on the code. The delivery client reports an error of the delivery API in
  its result, \<^verbatim>\<open>{ data: null, error: {...} }\<close>, and does not throw; the handler never
  reads \<^verbatim>\<open>error\<close>, finds no \<^verbatim>\<open>data\<close>, and answers 200 with
  \<^verbatim>\<open>{ success: true, status: "delivered" }\<close>, the \<^verbatim>\<open>messageId\<close> left out.
\<close>

theorem refused_delivery_answers_200:
  "requestHandler (world ai_down (Inr delivery_refused)) (post john) =
     \<lparr>status = 200, headers = HTTP_HEADERS_JSON @ HTTP_HEADERS_CORS,
      body = Some [(''success'', JBool True), (''status'', JStr ''delivered'')]\<rparr>"
proof -
  note p = john_prepared_when_ai_down [of "Inr delivery_refused"]
  have m: "message_id delivery_refused = Inr JUndefined"
    by (simp add: message_id_def delivery_refused_def)
  have "requestHandler (world ai_down (Inr delivery_refused)) (post john) =
      answer_after_send (world ai_down (Inr delivery_refused))
        (fallback_email ''John Doe'' (JStr ''john@example.com'') ''technology'')"
    by (rule handler_after_prepare [OF _ _ p]) (simp_all add: post_def)
  also have "\<dots> = success_response JUndefined"
    by (simp add: answer_after_send_def world_def m)
  finally show ?thesis by (simp add: success_response_def stringify_def)
qed

subsection \<open>Successful delivery\<close>

text \<open>
  Claim C3. When delivery succeeds, that is, the handler has handed an email to the
  delivery client and the client's result holds \<^verbatim>\<open>data\<close> with a non-empty string
  \<^verbatim>\<open>id\<close>, the handler answers 200 with the JSON and CORS headers and exactly the body
  \<^verbatim>\<open>{ success: true, messageId: id, status: "delivered" }\<close>, whose \<^verbatim>\<open>messageId\<close> is
  that non-empty string.
\<close>

theorem delivery_success_answers_200:
  assumes "req_method r \<noteq> ''OPTIONS''" and "req_json r = Inr b" and "prepared_email w b = Inr m"
      and "emails_send w m = Inr (JObj res)"
      and "map_of res ''data'' = Some (JObj d)"
      and "map_of d ''id'' = Some (JStr i)"
      and "i \<noteq> []"
  shows "requestHandler w r =
     \<lparr>status = 200, headers = HTTP_HEADERS_JSON @ HTTP_HEADERS_CORS,
      body = Some [(''success'', JBool True), (''messageId'', JStr i),
                   (''status'', JStr ''delivered'')]\<rparr>
     \<and> (\<exists>kvs v. body (requestHandler w r) = Some kvs
            \<and> map_of kvs ''messageId'' = Some (JStr v) \<and> v \<noteq> [])"
proof -
  have "message_id (JObj res) = Inr (JStr i)"
    using assms(5,6) by (simp add: message_id_def)
  with assms(4) have "answer_after_send w m = success_response (JStr i)"
    by (simp add: answer_after_send_def)
  with handler_after_prepare [OF assms(1,2,3)] assms(7) show ?thesis
    by (simp add: success_response_def stringify_def)
qed

theorem delivery_success_answers_200_witness:
  "req_method (post john) \<noteq> ''OPTIONS''
   \<and> req_json (post john) = Inr john
   \<and> prepared_email (world ai_down (Inr (delivered_as ''msg_1''))) john =
       Inr (fallback_email ''John Doe'' (JStr ''john@example.com'') ''technology'')
   \<and> emails_send (world ai_down (Inr (delivered_as ''msg_1'')))
         (fallback_email ''John Doe'' (JStr ''john@example.com'') ''technology'')
       = Inr (JObj [(''data'', JObj [(''id'', JStr ''msg_1'')]), (''error'', JNull)])
   \<and> map_of [(''data'', JObj [(''id'', JStr ''msg_1'')]), (''error'', JNull)] ''data''
       = Some (JObj [(''id'', JStr ''msg_1'')])
   \<and> map_of [(''id'', JStr ''msg_1'')] ''id'' = Some (JStr ''msg_1'')
   \<and> ''msg_1'' \<noteq> []
   \<and> requestHandler (world ai_down (Inr (delivered_as ''msg_1''))) (post john) =
       \<lparr>status = 200, headers = HTTP_HEADERS_JSON @ HTTP_HEADERS_CORS,
        body = Some [(''success'', JBool True), (''messageId'', JStr ''msg_1''),
                     (''status'', JStr ''delivered'')]\<rparr>"
proof -
  let ?w = "world ai_down (Inr (delivered_as ''msg_1''))"
  let ?m = "fallback_email ''John Doe'' (JStr ''john@example.com'') ''technology''"
  have h1: "req_method (post john) \<noteq> ''OPTIONS''" by (simp add: post_def)
  have h2: "req_json (post john) = Inr john" by (simp add: post_def)
  note h3 = john_prepared_when_ai_down [of "Inr (delivered_as ''msg_1'')"]
  have h4: "emails_send ?w ?m = Inr (JObj [(''data'', JObj [(''id'', JStr ''msg_1'')]), (''error'', JNull)])"
    by (simp add: world_def delivered_as_def)
  have h5: "map_of [(''data'', JObj [(''id'', JStr ''msg_1'')]), (''error'', JNull)] ''data''
       = Some (JObj [(''id'', JStr ''msg_1'')])" by simp
  have h6: "map_of [(''id'', JStr ''msg_1'')] ''id'' = Some (JStr ''msg_1'')" by simp
  have h7: "''msg_1'' \<noteq> []" by simp
  from delivery_success_answers_200 [OF h1 h2 h3 h4 h5 h6 h7] h1 h2 h3 h4 h5 h6 h7
  show ?thesis by simp
qed

subsection \<open>CORS headers\<close>

text \<open>
  Claim C8. A request with method \<^verbatim>\<open>OPTIONS\<close> is answered with a null body and the
  CORS headers; every other answer, the 200 and the 500 alike, has status 200 or 500 and
  the JSON header followed by those same CORS headers.
\<close>

theorem cors_headers_on_every_response:
  "(req_method r = ''OPTIONS'' \<longrightarrow>
      body (requestHandler w r) = None \<and> headers (requestHandler w r) = HTTP_HEADERS_CORS)
   \<and> (req_method r \<noteq> ''OPTIONS'' \<longrightarrow>
      (status (requestHandler w r) = 200 \<or> status (requestHandler w r) = 500)
      \<and> headers (requestHandler w r) = HTTP_HEADERS_JSON @ HTTP_HEADERS_CORS
      \<and> set HTTP_HEADERS_CORS \<subseteq> set (headers (requestHandler w r)))"
  by (auto simp add: requestHandler_def failure_response_def success_response_def
      split: sum.splits)

theorem cors_headers_on_every_response_witness:
  "req_method \<lparr>req_method = ''OPTIONS'', req_json = Inl (SyntaxError ''Unexpected end of JSON input'')\<rparr>
     = ''OPTIONS''
   \<and> body (requestHandler (world ai_down (Inr (delivered_as ''msg_1'')))
        \<lparr>req_method = ''OPTIONS'', req_json = Inl (SyntaxError ''Unexpected end of JSON input'')\<rparr>) = None
   \<and> headers (requestHandler (world ai_down (Inr (delivered_as ''msg_1'')))
        \<lparr>req_method = ''OPTIONS'', req_json = Inl (SyntaxError ''Unexpected end of JSON input'')\<rparr>)
       = [(''Access-Control-Allow-Origin'', ''*''),
          (''Access-Control-Allow-Headers'', ''authorization, x-client-info, apikey, content-type'')]
   \<and> req_method (post john) \<noteq> ''OPTIONS''
   \<and> headers (requestHandler (world ai_down (Inr (delivered_as ''msg_1''))) (post john))
       = [(''Content-Type'', ''application/json''),
          (''Access-Control-Allow-Origin'', ''*''),
          (''Access-Control-Allow-Headers'', ''authorization, x-client-info, apikey, content-type'')]"
proof -
  let ?w = "world ai_down (Inr (delivered_as ''msg_1''))"
  let ?o = "\<lparr>req_method = ''OPTIONS'', req_json = Inl (SyntaxError ''Unexpected end of JSON input'')\<rparr>"
  have o: "req_method ?o = ''OPTIONS''" by simp
  have p: "req_method (post john) \<noteq> ''OPTIONS''" by (simp add: post_def)
  from cors_headers_on_every_response [of ?o ?w] o
  have 1: "body (requestHandler ?w ?o) = None \<and> headers (requestHandler ?w ?o) = HTTP_HEADERS_CORS"
    by blast
  from cors_headers_on_every_response [of "post john" ?w] p
  have 2: "headers (requestHandler ?w (post john)) = HTTP_HEADERS_JSON @ HTTP_HEADERS_CORS"
    by blast
  from 1 2 o p show ?thesis
    by (simp add: HTTP_HEADERS_CORS_def HTTP_HEADERS_JSON_def)
qed

subsection \<open>A body that is not JSON\<close>

text \<open>
  Claim C9. For a request whose method is not \<^verbatim>\<open>OPTIONS\<close> and whose body is not valid
  JSON, the handler returns: the \<^verbatim>\<open>SyntaxError\<close> of \<^verbatim>\<open>request.json()\<close> is caught by
  the one \<^verbatim>\<open>catch\<close>, and the answer is the 500 with the JSON and CORS headers and the
  body \<^verbatim>\<open>{ success: false, error, timestamp }\<close>, \<^verbatim>\<open>error\<close> being the exception's message.
\<close>

theorem invalid_json_answers_500:
  assumes "req_method r \<noteq> ''OPTIONS''" and "req_json r = Inl err"
  shows "requestHandler w r =
     \<lparr>status = 500, headers = HTTP_HEADERS_JSON @ HTTP_HEADERS_CORS,
      body = Some [(''success'', JBool False), (''error'', JStr (err_message err)),
                   (''timestamp'', JStr (now_iso w))]\<rparr>"
  using assms by (simp add: requestHandler_def failure_response_def stringify_def)

theorem invalid_json_answers_500_witness:
  "req_method \<lparr>req_method = ''POST'', req_json = Inl (SyntaxError ''Unexpected end of JSON input'')\<rparr>
     \<noteq> ''OPTIONS''
   \<and> req_json \<lparr>req_method = ''POST'', req_json = Inl (SyntaxError ''Unexpected end of JSON input'')\<rparr>
     = Inl (SyntaxError ''Unexpected end of JSON input'')
   \<and> requestHandler (world ai_down (Inr (delivered_as ''msg_1'')))
       \<lparr>req_method = ''POST'', req_json = Inl (SyntaxError ''Unexpected end of JSON input'')\<rparr> =
     \<lparr>status = 500,
      headers = [(''Content-Type'', ''application/json''),
                 (''Access-Control-Allow-Origin'', ''*''),
                 (''Access-Control-Allow-Headers'', ''authorization, x-client-info, apikey, content-type'')],
      body = Some [(''success'', JBool False), (''error'', JStr ''Unexpected end of JSON input''),
                   (''timestamp'', JStr ''2025-01-01T00:00:00.000Z'')]\<rparr>"
proof -
  let ?r = "\<lparr>req_method = ''POST'', req_json = Inl (SyntaxError ''Unexpected end of JSON input'')\<rparr>"
  have h1: "req_method ?r \<noteq> ''OPTIONS''" by simp
  have h2: "req_json ?r = Inl (SyntaxError ''Unexpected end of JSON input'')" by simp
  from invalid_json_answers_500 [OF h1 h2, of "world ai_down (Inr (delivered_as ''msg_1''))"] h1 h2
  show ?thesis by (simp add: HTTP_HEADERS_CORS_def HTTP_HEADERS_JSON_def world_def)
qed

subsection \<open>No validation in the handler\<close>

lemma destructure_total:
  assumes "\<not> nullish b"
  shows "\<exists>n e i. get_prop b ''name'' = Inr n \<and> get_prop b ''email'' = Inr e
           \<and> get_prop b ''industry'' = Inr i \<and> destructure b = Inr (n, e, i)"
  using assms by (cases b) (simp_all add: destructure_def)

text \<open>
  Claim C10, as amended. The handler compares \<^verbatim>\<open>name\<close>, \<^verbatim>\<open>email\<close> and
  \<^verbatim>\<open>industry\<close> with nothing. For every JSON body other than \<^verbatim>\<open>null\<close> it reads the
  three as they come (\<^verbatim>\<open>undefined\<close> when absent). When \<^verbatim>\<open>name\<close> and
  \<^verbatim>\<open>industry\<close> print, as every string does, empty or not, of the enumerated set or not,
  content generation is called and returns a message, and whenever that message is a
  string the email to \<^verbatim>\<open>[email]\<close> is handed to the delivery client, the answer being
  what delivery makes it; \<^verbatim>\<open>email\<close> is not looked at. A \<^verbatim>\<open>name\<close> or
  \<^verbatim>\<open>industry\<close> that does not print (an object with a \<^verbatim>\<open>toString\<close> property of its
  own, an array that holds one) is the one content that rejects a request: the template
  literal of line 130 throws, and the answer is the 500 with that exception's message.
\<close>

theorem no_server_side_validation:
  assumes "req_method r \<noteq> ''OPTIONS''" and "req_json r = Inr b" and "\<not> nullish b"
  shows "\<exists>n e i. get_prop b ''name'' = Inr n \<and> get_prop b ''email'' = Inr e
           \<and> get_prop b ''industry'' = Inr i
           \<and> (\<forall>ns is. toStr n = Inr ns \<and> toStr i = Inr is \<longrightarrow>
                 (\<exists>c. createPersonalizedWelcomeMessage w n i = Inr c)
                 \<and> (\<forall>s. createPersonalizedWelcomeMessage w n i = Inr (JStr s) \<longrightarrow>
                       prepared_email w b = Inr (email_for ns e (buildEmailTemplate ns is s))
                       \<and> requestHandler w r =
                           answer_after_send w (email_for ns e (buildEmailTemplate ns is s))))
           \<and> (\<forall>err. toStr n = Inl err \<or> (\<exists>ns. toStr n = Inr ns \<and> toStr i = Inl err) \<longrightarrow>
                 prepared_email w b = Inl err \<and> requestHandler w r = failure_response w err)"
proof -
  from destructure_total [OF assms(3)] obtain n e i where
    g: "get_prop b ''name'' = Inr n" "get_prop b ''email'' = Inr e" "get_prop b ''industry'' = Inr i"
    and d: "destructure b = Inr (n, e, i)" by blast
  have printed: "(\<exists>c. createPersonalizedWelcomeMessage w n i = Inr c)
      \<and> (\<forall>s. createPersonalizedWelcomeMessage w n i = Inr (JStr s) \<longrightarrow>
            prepared_email w b = Inr (email_for ns e (buildEmailTemplate ns is s))
            \<and> requestHandler w r =
                answer_after_send w (email_for ns e (buildEmailTemplate ns is s)))"
    if p: "toStr n = Inr ns \<and> toStr i = Inr is" for ns "is"
  proof (intro conjI allI impI)
    from p show "\<exists>c. createPersonalizedWelcomeMessage w n i = Inr c"
      using welcome_message_returns by blast
  next
    fix s
    assume c: "createPersonalizedWelcomeMessage w n i = Inr (JStr s)"
    from p have pn: "toStr n = Inr ns" and pi: "toStr i = Inr is" by simp_all
    show q: "prepared_email w b = Inr (email_for ns e (buildEmailTemplate ns is s))"
      by (rule prepared_with_text [OF d pn pi c])
    show "requestHandler w r = answer_after_send w (email_for ns e (buildEmailTemplate ns is s))"
      by (rule handler_after_prepare [OF assms(1,2) q])
  qed
  have unprintable: "prepared_email w b = Inl err \<and> requestHandler w r = failure_response w err"
    if u: "toStr n = Inl err \<or> (\<exists>ns. toStr n = Inr ns \<and> toStr i = Inl err)" for err
  proof -
    from u have "prepared_email w b = Inl err"
      using prepared_unprintable_name [OF d] prepared_unprintable_industry [OF d] by blast
    with exception_before_send_gives_500 [OF assms(1,2)] show ?thesis by blast
  qed
  from g printed unprintable show ?thesis by blast
qed

theorem no_server_side_validation_witness:
  "req_method (post unchecked_body) \<noteq> ''OPTIONS''
   \<and> req_json (post unchecked_body) = Inr unchecked_body
   \<and> \<not> nullish unchecked_body
   \<and> toStr (JStr []) = Inr [] \<and> toStr (JStr ''astrology'') = Inr ''astrology''
   \<and> prepared_email (world ai_down (Inr (delivered_as ''msg_1''))) unchecked_body =
       Inr (fallback_email [] (JStr ''bad'') ''astrology'')
   \<and> requestHandler (world ai_down (Inr (delivered_as ''msg_1''))) (post unchecked_body) =
       success_response (JStr ''msg_1'')"
proof -
  let ?w = "world ai_down (Inr (delivered_as ''msg_1''))"
  have h1: "req_method (post unchecked_body) \<noteq> ''OPTIONS''" by (simp add: post_def)
  have h2: "req_json (post unchecked_body) = Inr unchecked_body" by (simp add: post_def)
  have h3: "\<not> nullish unchecked_body" by (simp add: unchecked_body_def)
  from no_server_side_validation [OF h1 h2 h3, of ?w] obtain n e i where
    g: "get_prop unchecked_body ''name'' = Inr n" "get_prop unchecked_body ''email'' = Inr e"
       "get_prop unchecked_body ''industry'' = Inr i"
    and a: "\<And>ns is s. toStr n = Inr ns \<and> toStr i = Inr is \<Longrightarrow>
         createPersonalizedWelcomeMessage ?w n i = Inr (JStr s) \<Longrightarrow>
         prepared_email ?w unchecked_body = Inr (email_for ns e (buildEmailTemplate ns is s))
         \<and> requestHandler ?w (post unchecked_body) =
             answer_after_send ?w (email_for ns e (buildEmailTemplate ns is s))"
    by blast
  from g have n: "n = JStr []" and e: "e = JStr ''bad''" and i: "i = JStr ''astrology''"
    by (simp_all add: unchecked_body_def)
  have p: "toStr n = Inr [] \<and> toStr i = Inr ''astrology''" by (simp add: n i)
  have c: "createPersonalizedWelcomeMessage ?w n i = Inr (JStr (generateFallbackMessage [] ''astrology''))"
    by (simp add: n i createPersonalizedWelcomeMessage_def welcome_try_def aiRequest_of_def
        generateFallbackMessage_of_def world_def ai_down_def)
  have s: "answer_after_send ?w m = success_response (JStr ''msg_1'')" for m
    by (simp add: answer_after_send_def world_def message_id_def delivered_as_def)
  from a [OF p c] s e h1 h2 h3 show ?thesis by (simp add: fallback_email_def)
qed

text \<open>
  Claim C10 as stated fails for the JSON body \<^verbatim>\<open>null\<close>: it parses, the destructuring
  throws a \<^verbatim>\<open>TypeError\<close>, which is neither a parse nor a delivery exception, no email
  reaches the delivery client, and the handler answers 500.
\<close>

theorem null_body_counterexample:
  "req_json (post JNull) = Inr JNull
   \<and> prepared_email (world ai_down (Inr (delivered_as ''msg_1''))) JNull =
       Inl (TypeError (''Cannot destructure property '' @ sq @ ''name'' @ sq @ '' of '' @ sq @
         ''requestData'' @ sq @ '' as it is null.''))
   \<and> status (requestHandler (world ai_down (Inr (delivered_as ''msg_1''))) (post JNull)) = 500"
proof -
  have p: "prepared_email (world ai_down (Inr (delivered_as ''msg_1''))) JNull =
       Inl (TypeError (''Cannot destructure property '' @ sq @ ''name'' @ sq @ '' of '' @ sq @
         ''requestData'' @ sq @ '' as it is null.''))"
    by (simp add: prepared_email_def destructure_def)
  have "status (requestHandler (world ai_down (Inr (delivered_as ''msg_1''))) (post JNull)) = 500"
    by (simp add: requestHandler_def post_def processEmailDelivery_def p failure_response_def)
  with p show ?thesis by (simp add: post_def)
qed

subsection \<open>The fallback message\<close>

text \<open>
  Claim C5. \<^verbatim>\<open>generateFallbackMessage\<close> is a function of \<open>name\<close> and \<open>industry\<close> and of
  nothing else (it takes no world and returns a string, never an error): equal inputs
  give equal strings, and the string is a fixed text around the name and the industry,
  both verbatim, the name first.
\<close>

theorem fallback_message_embeds_inputs:
  "(\<exists>pre mid suf. \<forall>n i. generateFallbackMessage n i = pre @ n @ mid @ i @ suf)
   \<and> (\<forall>n i n' i'. n = n' \<and> i = i' \<longrightarrow>
         generateFallbackMessage n i = generateFallbackMessage n' i')
   \<and> (\<forall>n i. sublist n (generateFallbackMessage n i) \<and> sublist i (generateFallbackMessage n i))"
proof (intro conjI)
  show "\<exists>pre mid suf. \<forall>n i. generateFallbackMessage n i = pre @ n @ mid @ i @ suf"
  proof (intro exI allI)
    fix n i
    show "generateFallbackMessage n i =
      ''Hello '' @ n @
      (''! '' @ glowing_star @ '' Welcome to our innovation community! We'' @ sq @
       ''re excited to have a '') @ i @
      ('' professional join our network. Prepare to explore breakthrough '' @
       ''technologies, collaborate with industry pioneers, and discover '' @
       ''game-changing opportunities that will reshape your professional landscape. '' @
       ''Your innovation adventure starts now!'')"
      by (simp add: generateFallbackMessage_def)
  qed
  show "\<forall>n i n' i'. n = n' \<and> i = i' \<longrightarrow>
         generateFallbackMessage n i = generateFallbackMessage n' i'"
    by simp
  show "\<forall>n i. sublist n (generateFallbackMessage n i) \<and> sublist i (generateFallbackMessage n i)"
    unfolding generateFallbackMessage_def sublist_def by (metis append_assoc)
qed

theorem fallback_message_embeds_inputs_witness:
  "''John Doe'' = ''John Doe'' \<and> ''technology'' = ''technology''
   \<and> generateFallbackMessage ''John Doe'' ''technology'' =
       generateFallbackMessage ''John Doe'' ''technology''
   \<and> sublist ''John Doe'' (generateFallbackMessage ''John Doe'' ''technology'')
   \<and> sublist ''technology'' (generateFallbackMessage ''John Doe'' ''technology'')"
  using fallback_message_embeds_inputs by blast

section \<open>The form's claim\<close>

lemma sendConfirmationEmail_failed:
  "call_failed c d \<Longrightarrow> \<exists>e. sendConfirmationEmail c d = Inl e"
  by (auto simp add: call_failed_def sendConfirmationEmail_def split: sum.splits)

lemma sendConfirmationEmail_ok:
  "\<not> call_failed c d \<Longrightarrow> sendConfirmationEmail c d = Inr ()"
  by (auto simp add: call_failed_def sendConfirmationEmail_def split: sum.splits)

text \<open>
  Claim C4. A submission passes validation and calls the confirmation handler. When the
  call fails (\<^verbatim>\<open>invoke\<close> throws or reports an error), no lead record is appended,
  \<open>isSubmitted\<close> is what it was (false, the form being on screen) and the entered data
  stay; when the call succeeds, exactly one lead record, built from the entered data, is
  appended, \<open>isSubmitted\<close> is true and the form is reset. A submission that does not pass
  validation makes no call and changes none of the three.
\<close>

theorem submission_outcome:
  "(validate (formData s) = [] \<and> call_failed c (formData s) \<longrightarrow>
      leadRecords (handleFormSubmission validate c s) = leadRecords s
      \<and> isSubmitted (handleFormSubmission validate c s) = isSubmitted s
      \<and> formData (handleFormSubmission validate c s) = formData s)
   \<and> (validate (formData s) = [] \<and> \<not> call_failed c (formData s) \<longrightarrow>
      leadRecords (handleFormSubmission validate c s) =
        leadRecords s @ [newLeadRecord c (formData s)]
      \<and> length (leadRecords (handleFormSubmission validate c s)) = Suc (length (leadRecords s))
      \<and> isSubmitted (handleFormSubmission validate c s)
      \<and> formData (handleFormSubmission validate c s) = INITIAL_FORM_STATE)
   \<and> (validate (formData s) \<noteq> [] \<longrightarrow>
      leadRecords (handleFormSubmission validate c s) = leadRecords s
      \<and> isSubmitted (handleFormSubmission validate c s) = isSubmitted s
      \<and> formData (handleFormSubmission validate c s) = formData s)"
proof (intro conjI impI)
  assume a: "validate (formData s) = [] \<and> call_failed c (formData s)"
  then obtain e where "sendConfirmationEmail c (formData s) = Inl e"
    using sendConfirmationEmail_failed by blast
  with a show "leadRecords (handleFormSubmission validate c s) = leadRecords s"
    and "isSubmitted (handleFormSubmission validate c s) = isSubmitted s"
    and "formData (handleFormSubmission validate c s) = formData s"
    by (simp_all add: handleFormSubmission_def)
next
  assume a: "validate (formData s) = [] \<and> \<not> call_failed c (formData s)"
  then have "sendConfirmationEmail c (formData s) = Inr ()"
    using sendConfirmationEmail_ok by blast
  with a show "leadRecords (handleFormSubmission validate c s) =
        leadRecords s @ [newLeadRecord c (formData s)]"
    and "length (leadRecords (handleFormSubmission validate c s)) = Suc (length (leadRecords s))"
    and "isSubmitted (handleFormSubmission validate c s)"
    and "formData (handleFormSubmission validate c s) = INITIAL_FORM_STATE"
    by (simp_all add: handleFormSubmission_def)
next
  assume "validate (formData s) \<noteq> []"
  then show "leadRecords (handleFormSubmission validate c s) = leadRecords s"
    and "isSubmitted (handleFormSubmission validate c s) = isSubmitted s"
    and "formData (handleFormSubmission validate c s) = formData s"
    by (simp_all add: handleFormSubmission_def)
qed

lemma validateLeadForm_sample: "validateLeadForm (formData sample_state) = []"
  by (simp add: validateLeadForm_def sample_state_def name_errors_def email_errors_def
      industry_errors_def trimmed_length_def is_continuation_def trim_def is_space_def
      WHITE_SPACE_def email_shape_def INDUSTRY_VALUES_def)

theorem submission_outcome_witness:
  "validateLeadForm (formData sample_state) = []
   \<and> call_failed (client_world (Inr (JObj [(''message'', JStr ''Edge Function returned a non-2xx status code'')])))
        (formData sample_state)
   \<and> leadRecords (handleFormSubmission validateLeadForm
        (client_world (Inr (JObj [(''message'', JStr ''Edge Function returned a non-2xx status code'')])))
        sample_state) = []
   \<and> isSubmitted (handleFormSubmission validateLeadForm
        (client_world (Inr (JObj [(''message'', JStr ''Edge Function returned a non-2xx status code'')])))
        sample_state) = False
   \<and> formData (handleFormSubmission validateLeadForm
        (client_world (Inr (JObj [(''message'', JStr ''Edge Function returned a non-2xx status code'')])))
        sample_state) = \<lparr>name = ''John Doe'', email = ''john@example.com'', industry = ''technology''\<rparr>
   \<and> \<not> call_failed (client_world (Inr JNull)) (formData sample_state)
   \<and> leadRecords (handleFormSubmission validateLeadForm (client_world (Inr JNull)) sample_state) =
        [\<lparr>name = ''John Doe'', email = ''john@example.com'', industry = ''technology'',
          submitted_at = ''2025-01-01T00:00:00.000Z''\<rparr>]
   \<and> isSubmitted (handleFormSubmission validateLeadForm (client_world (Inr JNull)) sample_state)
   \<and> formData (handleFormSubmission validateLeadForm (client_world (Inr JNull)) sample_state) =
        \<lparr>name = [], email = [], industry = []\<rparr>
   \<and> validateLeadForm (formData (sample_state\<lparr>formData := INITIAL_FORM_STATE\<rparr>)) \<noteq> []
   \<and> leadRecords (handleFormSubmission validateLeadForm (client_world (Inr JNull))
        (sample_state\<lparr>formData := INITIAL_FORM_STATE\<rparr>)) = []"
proof -
  let ?bad = "client_world (Inr (JObj [(''message'', JStr ''Edge Function returned a non-2xx status code'')]))"
  let ?ok = "client_world (Inr JNull)"
  let ?empty = "sample_state\<lparr>formData := INITIAL_FORM_STATE\<rparr>"
  note v = validateLeadForm_sample
  have f: "call_failed ?bad (formData sample_state)"
    by (simp add: call_failed_def client_world_def)
  have g: "\<not> call_failed ?ok (formData sample_state)"
    by (simp add: call_failed_def client_world_def)
  have e: "validateLeadForm (formData ?empty) \<noteq> []"
    by (simp add: validateLeadForm_def INITIAL_FORM_STATE_def name_errors_def
        trimmed_length_def trim_def)
  from submission_outcome [of validateLeadForm sample_state ?bad] v f
  have 1: "leadRecords (handleFormSubmission validateLeadForm ?bad sample_state) = leadRecords sample_state
      \<and> isSubmitted (handleFormSubmission validateLeadForm ?bad sample_state) = isSubmitted sample_state
      \<and> formData (handleFormSubmission validateLeadForm ?bad sample_state) = formData sample_state"
    by blast
  from submission_outcome [of validateLeadForm sample_state ?ok] v g
  have 2: "leadRecords (handleFormSubmission validateLeadForm ?ok sample_state) =
        leadRecords sample_state @ [newLeadRecord ?ok (formData sample_state)]
      \<and> isSubmitted (handleFormSubmission validateLeadForm ?ok sample_state)
      \<and> formData (handleFormSubmission validateLeadForm ?ok sample_state) = INITIAL_FORM_STATE"
    by blast
  from submission_outcome [of validateLeadForm ?empty ?ok] e
  have 3: "leadRecords (handleFormSubmission validateLeadForm ?ok ?empty) = leadRecords ?empty"
    by blast
  have s: "leadRecords sample_state = []" "isSubmitted sample_state = False"
    "formData sample_state = \<lparr>name = ''John Doe'', email = ''john@example.com'', industry = ''technology''\<rparr>"
    "leadRecords ?empty = []"
    by (simp_all add: sample_state_def)
  have n: "newLeadRecord ?ok
      \<lparr>name = ''John Doe'', email = ''john@example.com'', industry = ''technology''\<rparr> =
      \<lparr>name = ''John Doe'', email = ''john@example.com'', industry = ''technology'',
        submitted_at = ''2025-01-01T00:00:00.000Z''\<rparr>"
    by (simp add: newLeadRecord_def client_world_def)
  have i: "INITIAL_FORM_STATE = \<lparr>name = [], email = [], industry = []\<rparr>"
    by (simp add: INITIAL_FORM_STATE_def)
  from 1 have 1: "leadRecords (handleFormSubmission validateLeadForm ?bad sample_state) = []"
    "isSubmitted (handleFormSubmission validateLeadForm ?bad sample_state) = False"
    "formData (handleFormSubmission validateLeadForm ?bad sample_state) =
       \<lparr>name = ''John Doe'', email = ''john@example.com'', industry = ''technology''\<rparr>"
    by (simp_all only: s)
  from 2 have 2: "leadRecords (handleFormSubmission validateLeadForm ?ok sample_state) =
       [\<lparr>name = ''John Doe'', email = ''john@example.com'', industry = ''technology'',
          submitted_at = ''2025-01-01T00:00:00.000Z''\<rparr>]"
    "isSubmitted (handleFormSubmission validateLeadForm ?ok sample_state)"
    "formData (handleFormSubmission validateLeadForm ?ok sample_state) =
       \<lparr>name = [], email = [], industry = []\<rparr>"
    by (simp_all only: s n i append_Nil)
  from 3 have 3: "leadRecords (handleFormSubmission validateLeadForm ?ok ?empty) = []"
    by (simp only: s)
  from v f 1 g 2 e 3 show ?thesis by blast
qed

section \<open>The validator's claim\<close>

lemma trimmed_length_J: "trimmed_length ''J'' = 1"
  by (simp add: trimmed_length_def is_continuation_def trim_def is_space_def WHITE_SPACE_def)

lemma trimmed_length_e_acute: "trimmed_length e_acute = 1"
  by (simp add: trimmed_length_def e_acute_def is_continuation_def trim_def is_space_def
      WHITE_SPACE_def)

lemma trimmed_length_padded_name: "trimmed_length padded_name = 1"
  by (simp add: trimmed_length_def padded_name_def is_continuation_def trim_def is_space_def
      WHITE_SPACE_def)

lemma trimmed_length_cyrillic_26: "trimmed_length cyrillic_26 = 26"
  by code_simp

lemma length_cyrillic_26: "length cyrillic_26 = 52"
  by code_simp

lemma validateLeadForm_J_bad:
  "validateLeadForm \<lparr>name = ''J'', email = ''bad'', industry = []\<rparr> =
     [\<lparr>field = ''name'', message = ''Name must be between 2 and 50 characters''\<rparr>,
      \<lparr>field = ''email'', message = ''Please enter a valid email address''\<rparr>,
      \<lparr>field = ''industry'', message = ''Please select an industry''\<rparr>]"
  by (simp add: validateLeadForm_def name_errors_def email_errors_def industry_errors_def
      trimmed_length_J email_shape_def INDUSTRY_VALUES_def)

text \<open>
  Claim C7. The input \<^verbatim>\<open>{ name: "J", email: "bad", industry: "" }\<close> yields exactly three
  errors, for name, email and industry in that order, and for every input the errors come
  in that order, each field at most once. In general there is a name error exactly when
  the trimmed name is shorter than 2 characters or longer than 50, an email error exactly
  when the email has not the shape, and an industry error exactly when the industry is
  none of the eight values. The length is counted in characters after trimming: a single
  letter outside ASCII, or a single letter between a no-break space and an ideographic
  space, is one character and too short, and twenty-six Cyrillic letters, fifty-two
  bytes, are twenty-six characters.
\<close>

theorem validation_rules:
  "validateLeadForm \<lparr>name = ''J'', email = ''bad'', industry = []\<rparr> =
     [\<lparr>field = ''name'', message = ''Name must be between 2 and 50 characters''\<rparr>,
      \<lparr>field = ''email'', message = ''Please enter a valid email address''\<rparr>,
      \<lparr>field = ''industry'', message = ''Please select an industry''\<rparr>]
   \<and> (\<forall>d. map field (validateLeadForm d) =
          filter (\<lambda>f. f \<in> field ` set (validateLeadForm d)) [''name'', ''email'', ''industry''])
   \<and> (\<forall>d. (trimmed_length (name d) < 2 \<or> 50 < trimmed_length (name d)) \<longrightarrow>
          ''name'' \<in> field ` set (validateLeadForm d))
   \<and> (\<forall>d. 2 \<le> trimmed_length (name d) \<and> trimmed_length (name d) \<le> 50 \<longrightarrow>
          ''name'' \<notin> field ` set (validateLeadForm d))
   \<and> (\<forall>d. \<not> email_shape (email d) \<longrightarrow> ''email'' \<in> field ` set (validateLeadForm d))
   \<and> (\<forall>d. email_shape (email d) \<longrightarrow> ''email'' \<notin> field ` set (validateLeadForm d))
   \<and> (\<forall>d. industry d \<notin> set INDUSTRY_VALUES \<longrightarrow>
          ''industry'' \<in> field ` set (validateLeadForm d))
   \<and> (\<forall>d. industry d \<in> set INDUSTRY_VALUES \<longrightarrow>
          ''industry'' \<notin> field ` set (validateLeadForm d))
   \<and> length INDUSTRY_VALUES = 8 \<and> distinct INDUSTRY_VALUES
   \<and> trimmed_length e_acute = 1 \<and> trimmed_length padded_name = 1
   \<and> trimmed_length cyrillic_26 = 26 \<and> length cyrillic_26 = 52"
proof (intro conjI allI)
  show "validateLeadForm \<lparr>name = ''J'', email = ''bad'', industry = []\<rparr> =
     [\<lparr>field = ''name'', message = ''Name must be between 2 and 50 characters''\<rparr>,
      \<lparr>field = ''email'', message = ''Please enter a valid email address''\<rparr>,
      \<lparr>field = ''industry'', message = ''Please select an industry''\<rparr>]"
    by (rule validateLeadForm_J_bad)
  show "length INDUSTRY_VALUES = 8" by (simp add: INDUSTRY_VALUES_def)
  show "distinct INDUSTRY_VALUES" by (simp add: INDUSTRY_VALUES_def)
  show "trimmed_length e_acute = 1" by (rule trimmed_length_e_acute)
  show "trimmed_length padded_name = 1" by (rule trimmed_length_padded_name)
  show "trimmed_length cyrillic_26 = 26" by (rule trimmed_length_cyrillic_26)
  show "length cyrillic_26 = 52" by (rule length_cyrillic_26)
  fix d
  show "map field (validateLeadForm d) =
          filter (\<lambda>f. f \<in> field ` set (validateLeadForm d)) [''name'', ''email'', ''industry'']"
    by (simp add: validateLeadForm_def name_errors_def email_errors_def industry_errors_def)
qed (auto simp add: validateLeadForm_def name_errors_def email_errors_def industry_errors_def
      image_Un)

theorem validation_rules_witness:
  "(trimmed_length (name \<lparr>name = e_acute, email = ''bad'', industry = []\<rparr>) < 2
      \<or> 50 < trimmed_length (name \<lparr>name = e_acute, email = ''bad'', industry = []\<rparr>))
   \<and> ''name'' \<in> field ` set (validateLeadForm \<lparr>name = e_acute, email = ''bad'', industry = []\<rparr>)
   \<and> \<not> email_shape (email \<lparr>name = e_acute, email = ''bad'', industry = []\<rparr>)
   \<and> ''email'' \<in> field ` set (validateLeadForm \<lparr>name = e_acute, email = ''bad'', industry = []\<rparr>)
   \<and> industry \<lparr>name = e_acute, email = ''bad'', industry = []\<rparr> \<notin> set INDUSTRY_VALUES
   \<and> ''industry'' \<in> field ` set (validateLeadForm \<lparr>name = e_acute, email = ''bad'', industry = []\<rparr>)
   \<and> 2 \<le> trimmed_length (name \<lparr>name = cyrillic_26, email = ''john@example.com'', industry = ''technology''\<rparr>)
   \<and> trimmed_length (name \<lparr>name = cyrillic_26, email = ''john@example.com'', industry = ''technology''\<rparr>) \<le> 50
   \<and> email_shape (email \<lparr>name = cyrillic_26, email = ''john@example.com'', industry = ''technology''\<rparr>)
   \<and> industry \<lparr>name = cyrillic_26, email = ''john@example.com'', industry = ''technology''\<rparr>
        \<in> set INDUSTRY_VALUES
   \<and> ''name'' \<notin> field ` set (validateLeadForm
        \<lparr>name = cyrillic_26, email = ''john@example.com'', industry = ''technology''\<rparr>)
   \<and> ''email'' \<notin> field ` set (validateLeadForm
        \<lparr>name = cyrillic_26, email = ''john@example.com'', industry = ''technology''\<rparr>)
   \<and> ''industry'' \<notin> field ` set (validateLeadForm
        \<lparr>name = cyrillic_26, email = ''john@example.com'', industry = ''technology''\<rparr>)"
proof -
  let ?bad = "\<lparr>name = e_acute, email = ''bad'', industry = []\<rparr>"
  let ?ok = "\<lparr>name = cyrillic_26, email = ''john@example.com'', industry = ''technology''\<rparr>"
  have b1: "trimmed_length (name ?bad) < 2 \<or> 50 < trimmed_length (name ?bad)"
    by (simp add: trimmed_length_e_acute)
  have b2: "\<not> email_shape (email ?bad)" by (simp add: email_shape_def)
  have b3: "industry ?bad \<notin> set INDUSTRY_VALUES" by (simp add: INDUSTRY_VALUES_def)
  have g1: "2 \<le> trimmed_length (name ?ok) \<and> trimmed_length (name ?ok) \<le> 50"
    by (simp add: trimmed_length_cyrillic_26)
  have g2: "email_shape (email ?ok)" by (simp add: email_shape_def)
  have g3: "industry ?ok \<in> set INDUSTRY_VALUES" by (simp add: INDUSTRY_VALUES_def)
  from validation_rules b1 b2 b3 g1 g2 g3 show ?thesis by blast
qed

end
